theory Spec2Isabelle
  imports Complex_Main
begin

section \<open>SVG.py: injecting content into existing SVG documents\<close>

text \<open>
  A shallow embedding of \<^verbatim>\<open>src/SVG.py\<close>. Python exceptions are values of a sum type
  (\<open>Inl\<close> is the raised exception). Objects that ElementTree mutates in place are
  passed and returned explicitly.

  Numbers: a \<open>real\<close> stands for the Python number of that value, an \<^verbatim>\<open>int\<close> or a
  \<^verbatim>\<open>float\<close>, and the arithmetic of the model is exact. Python rounds the result of
  a float operation, and outside the numbers of \<open>py_number\<close> below it has outcomes
  the model has not: an \<^verbatim>\<open>int\<close> too large for a float raises OverflowError when it
  meets a float, and the infinities and NaN are floats of no real value. Properties
  that depend on which exception the arithmetic raises are stated for the numbers of
  \<open>py_number\<close>, where Python raises what the model raises.

  Strings: tags, attribute names and values and paths are \<open>string\<close>s, whose
  characters are the code points below 256; content handed to \<open>inject\<close> is a list
  of code points.
\<close>

subsection \<open>Exceptions\<close>

text \<open>
  \<open>ParseError\<close> is the class the module defines (line 14); \<open>ET_ParseError\<close> is
  \<^verbatim>\<open>xml.etree.ElementTree.ParseError\<close>; the next seven are Python built-ins.
  \<open>DegenerateRangeError\<close>, \<open>LayerNotFoundError\<close> and \<open>MissingViewportError\<close> are
  named by the specification only: no statement of the module raises them.
  \<open>Unmodelled\<close> is not an exception: it marks a call of the ElementTree path
  engine on a path outside the two shapes modelled below.
\<close>

datatype error =
    ParseError
  | ET_ParseError
  | NameError
  | TypeError
  | ValueError
  | AttributeError
  | ZeroDivisionError
  | SyntaxError
  | UnicodeEncodeError
  | DegenerateRangeError
  | LayerNotFoundError
  | MissingViewportError
  | Unmodelled

subsection \<open>Elements and Python objects\<close>

text \<open>
  An \<^verbatim>\<open>ElementTree.Element\<close>: its tag in Clark notation (\<^verbatim>\<open>{uri}local\<close>), its
  attribute dictionary and its ordered children.
\<close>

datatype element =
  Element (tag: string) (attrib: "(string \<times> string) list") (children: "element list")

text \<open>
  The Python objects the module handles. \<open>PyStr cs\<close> is the \<^verbatim>\<open>str\<close> with the code
  points \<open>cs\<close>. \<open>PyNamed n\<close> is an object that is not modelled further: the one the
  built-in or module attribute name \<open>n\<close> is bound to.
\<close>

datatype pyobj =
    PyNone
  | PyStr "nat list"
  | PyNumber real
  | PyElement element
  | PyDict "(string \<times> string) list"
  | PyModule string
  | PyClass string
  | PyNamed string

subsection \<open>Name resolution\<close>

text \<open>
  The names bound at module level when a method runs: the imports and classes of
  lines 7, 8, 14, 18, 69, 94 and 174 and the attributes every module has; and the
  names of the \<^verbatim>\<open>builtins\<close> module (Python 3.11). A name that a function body reads
  but never assigns is looked up in the module's globals, then in the built-ins, and
  raises NameError when neither binds it. Class attributes such as
  \<^verbatim>\<open>ExistingDoc._NS\<close> are not in scope of a method body under their bare name.
\<close>

definition module_globals :: "(string \<times> pyobj) list" where
  "module_globals =
     [(''re'', PyModule ''re''),
      (''ET'', PyModule ''xml.etree.ElementTree''),
      (''ParseError'', PyClass ''ParseError''),
      (''ExistingDoc'', PyClass ''ExistingDoc''),
      (''SVGDocInScale'', PyClass ''SVGDocInScale''),
      (''NumDocTrafo'', PyClass ''NumDocTrafo''),
      (''ScaledInjectionPoint'', PyClass ''ScaledInjectionPoint'')]"

definition module_attribute_names :: "string list" where
  "module_attribute_names =
     [''__name__'', ''__doc__'', ''__package__'', ''__loader__'', ''__spec__'', ''__file__'',
      ''__cached__'', ''__builtins__'']"

definition builtin_names :: "string list" where
  "builtin_names =
     [''ArithmeticError'', ''AssertionError'', ''AttributeError'', ''BaseException'',
      ''BaseExceptionGroup'', ''BlockingIOError'', ''BrokenPipeError'', ''BufferError'',
      ''BytesWarning'', ''ChildProcessError'', ''ConnectionAbortedError'',
      ''ConnectionError'', ''ConnectionRefusedError'', ''ConnectionResetError'',
      ''DeprecationWarning'', ''EOFError'', ''Ellipsis'', ''EncodingWarning'',
      ''EnvironmentError'', ''Exception'', ''ExceptionGroup'', ''False'',
      ''FileExistsError'', ''FileNotFoundError'', ''FloatingPointError'',
      ''FutureWarning'', ''GeneratorExit'', ''IOError'', ''ImportError'',
      ''ImportWarning'', ''IndentationError'', ''IndexError'', ''InterruptedError'',
      ''IsADirectoryError'', ''KeyError'', ''KeyboardInterrupt'', ''LookupError'',
      ''MemoryError'', ''ModuleNotFoundError'', ''NameError'', ''None'',
      ''NotADirectoryError'', ''NotImplemented'', ''NotImplementedError'', ''OSError'',
      ''OverflowError'', ''PendingDeprecationWarning'', ''PermissionError'',
      ''ProcessLookupError'', ''RecursionError'', ''ReferenceError'',
      ''ResourceWarning'', ''RuntimeError'', ''RuntimeWarning'', ''StopAsyncIteration'',
      ''StopIteration'', ''SyntaxError'', ''SyntaxWarning'', ''SystemError'',
      ''SystemExit'', ''TabError'', ''TimeoutError'', ''True'', ''TypeError'',
      ''UnboundLocalError'', ''UnicodeDecodeError'', ''UnicodeEncodeError'',
      ''UnicodeError'', ''UnicodeTranslateError'', ''UnicodeWarning'', ''UserWarning'',
      ''ValueError'', ''Warning'', ''ZeroDivisionError'', ''__build_class__'',
      ''__debug__'', ''__doc__'', ''__import__'', ''__loader__'', ''__name__'',
      ''__package__'', ''__spec__'', ''abs'', ''aiter'', ''all'', ''anext'', ''any'',
      ''ascii'', ''bin'', ''bool'', ''breakpoint'', ''bytearray'', ''bytes'',
      ''callable'', ''chr'', ''classmethod'', ''compile'', ''complex'', ''copyright'',
      ''credits'', ''delattr'', ''dict'', ''dir'', ''divmod'', ''enumerate'', ''eval'',
      ''exec'', ''exit'', ''filter'', ''float'', ''format'', ''frozenset'', ''getattr'',
      ''globals'', ''hasattr'', ''hash'', ''help'', ''hex'', ''id'', ''input'', ''int'',
      ''isinstance'', ''issubclass'', ''iter'', ''len'', ''license'', ''list'',
      ''locals'', ''map'', ''max'', ''memoryview'', ''min'', ''next'', ''object'',
      ''oct'', ''open'', ''ord'', ''pow'', ''print'', ''property'', ''quit'', ''range'',
      ''repr'', ''reversed'', ''round'', ''set'', ''setattr'', ''slice'', ''sorted'',
      ''staticmethod'', ''str'', ''sum'', ''super'', ''tuple'', ''type'', ''vars'',
      ''zip'']"

definition load_global :: "string \<Rightarrow> error + pyobj" where
  "load_global n =
     (case map_of module_globals n of
        Some v \<Rightarrow> Inr v
      | None \<Rightarrow>
          if n \<in> set module_attribute_names \<or> n \<in> set builtin_names then Inr (PyNamed n)
          else Inl NameError)"

subsection \<open>The ElementTree path engine, for the paths the module builds\<close>

definition apostrophe :: char where
  "apostrophe = CHR 0x27"

definition qname :: "string \<Rightarrow> string \<Rightarrow> string" where
  "qname uri local = ''{'' @ uri @ ''}'' @ local"

text \<open>
  The prefix map handed to \<^verbatim>\<open>find\<close>/\<^verbatim>\<open>findall\<close>: a dictionary is used as it is,
  \<^verbatim>\<open>None\<close> is the empty map, and any other object has no \<^verbatim>\<open>items\<close>.
\<close>

definition prefix_map :: "pyobj \<Rightarrow> error + (string \<times> string) list" where
  "prefix_map ns =
     (case ns of
        PyDict d \<Rightarrow> Inr d
      | PyNone \<Rightarrow> Inr []
      | _ \<Rightarrow> Inl AttributeError)"

text \<open>
  \<open>id_literal p\<close> recognises the path \<^verbatim>\<open>svg:g[@id='V']\<close> for a value \<open>V\<close> without an
  apostrophe and returns \<open>V\<close>. With an apostrophe inside, the text after it is read
  as further path syntax by ElementTree; that is outside this model.
\<close>

definition id_literal :: "string \<Rightarrow> string option" where
  "id_literal p =
     (let pre = ''svg:g[@id='' @ [apostrophe];
          suf = [apostrophe] @ '']'';
          n = length p;
          v = take (n - length pre - length suf) (drop (length pre) p)
      in if length pre + length suf \<le> n \<and> take (length pre) p = pre
            \<and> drop (n - length suf) p = suf \<and> apostrophe \<notin> set v
         then Some v else None)"

text \<open>
  \<^verbatim>\<open>iterfind(elem, path, namespaces)\<close>: both paths select among the direct children
  of \<open>elem\<close>, in document order, those whose tag is \<^verbatim>\<open>g\<close> in the namespace bound to
  the prefix \<^verbatim>\<open>svg\<close>, and that carry an \<^verbatim>\<open>id\<close> attribute (\<^verbatim>\<open>[@id]\<close>) or carry
  it with the given value (\<^verbatim>\<open>[@id='V']\<close>). An unbound prefix is a SyntaxError.
\<close>

definition ET_iterfind :: "element \<Rightarrow> string \<Rightarrow> pyobj \<Rightarrow> error + element list" where
  "ET_iterfind elem path namespaces =
     (case prefix_map namespaces of
        Inl e \<Rightarrow> Inl e
      | Inr d \<Rightarrow>
          if path = ''svg:g[@id]'' then
            (case map_of d ''svg'' of
               None \<Rightarrow> Inl SyntaxError
             | Some uri \<Rightarrow>
                 Inr (filter (\<lambda>e. tag e = qname uri ''g'' \<and> map_of (attrib e) ''id'' \<noteq> None)
                        (children elem)))
          else
            (case id_literal path of
               None \<Rightarrow> Inl Unmodelled
             | Some v \<Rightarrow>
                 (case map_of d ''svg'' of
                    None \<Rightarrow> Inl SyntaxError
                  | Some uri \<Rightarrow>
                      Inr (filter (\<lambda>e. tag e = qname uri ''g'' \<and> map_of (attrib e) ''id'' = Some v)
                             (children elem)))))"

text \<open>\<^verbatim>\<open>Element.find\<close> is the first element of the selection or \<^verbatim>\<open>None\<close>.\<close>

definition ET_find :: "element \<Rightarrow> string \<Rightarrow> pyobj \<Rightarrow> error + element option" where
  "ET_find elem path namespaces =
     (case ET_iterfind elem path namespaces of
        Inl e \<Rightarrow> Inl e
      | Inr [] \<Rightarrow> Inr None
      | Inr (x # _) \<Rightarrow> Inr (Some x))"

definition ET_findall :: "element \<Rightarrow> string \<Rightarrow> pyobj \<Rightarrow> error + element list" where
  "ET_findall elem path namespaces = ET_iterfind elem path namespaces"

text \<open>
  \<^verbatim>\<open>ET.fromstring(content)\<close>. A \<^verbatim>\<open>str\<close> is first encoded as UTF-8 for the parser,
  which fails with UnicodeEncodeError when it holds a surrogate code point
  (\<^verbatim>\<open>U+D800\<close> to \<^verbatim>\<open>U+DFFF\<close>). The XML parser itself is a parameter \<open>parse\<close>
  (\<open>None\<close> when the text is not one well-formed element); an argument that is not
  text is a TypeError.
\<close>

definition text_of :: "string \<Rightarrow> nat list" where
  "text_of cs = map of_char cs"

definition is_surrogate :: "nat \<Rightarrow> bool" where
  "is_surrogate c = (55296 \<le> c \<and> c \<le> 57343)"

definition ET_fromstring :: "(nat list \<Rightarrow> element option) \<Rightarrow> pyobj \<Rightarrow> error + element" where
  "ET_fromstring parse content =
     (case content of
        PyStr s \<Rightarrow>
          if list_ex is_surrogate s then Inl UnicodeEncodeError
          else (case parse s of None \<Rightarrow> Inl ET_ParseError | Some e \<Rightarrow> Inr e)
      | _ \<Rightarrow> Inl TypeError)"

text \<open>\<^verbatim>\<open>Element.append(x)\<close>: only an element can be appended.\<close>

definition Element_append :: "element \<Rightarrow> pyobj \<Rightarrow> error + element" where
  "Element_append t x =
     (case x of
        PyElement e \<Rightarrow> Inr (Element (tag t) (attrib t) (children t @ [e]))
      | _ \<Rightarrow> Inl TypeError)"

subsection \<open>The regular expression of \<open>viewBox\<close>\<close>

text \<open>
  \<^verbatim>\<open>re.findall("([^\s,]+)+", vbox)\<close> returns the maximal runs of characters that are
  neither a comma nor whitespace. \<^verbatim>\<open>\s\<close> on a \<^verbatim>\<open>str\<close> pattern is Unicode
  whitespace; below code point 256 these are the twelve characters listed.
\<close>

definition is_sep :: "char \<Rightarrow> bool" where
  "is_sep c = (c = CHR '','' \<or>
     (of_char c :: nat) \<in> {9, 10, 11, 12, 13, 28, 29, 30, 31, 32, 133, 160})"

fun findall_runs :: "string \<Rightarrow> string \<Rightarrow> string list" where
  "findall_runs cur [] = (if cur = [] then [] else [cur])"
| "findall_runs cur (c # cs) =
     (if is_sep c then (if cur = [] then [] else [cur]) @ findall_runs [] cs
      else findall_runs (cur @ [c]) cs)"

definition re_findall :: "string \<Rightarrow> string list" where
  "re_findall vbox = findall_runs [] vbox"

text \<open>
  \<^verbatim>\<open>list(map(float, coords))\<close>: the built-in \<^verbatim>\<open>float\<close> is a parameter \<open>pyfloat\<close>
  (\<open>None\<close> where Python raises ValueError); the first token it rejects raises.
  The tokens that Python reads as an infinity or a NaN have no value in \<open>real\<close>.
\<close>

fun map_float :: "(string \<Rightarrow> real option) \<Rightarrow> string list \<Rightarrow> error + real list" where
  "map_float pyfloat [] = Inr []"
| "map_float pyfloat (c # cs) =
     (case pyfloat c of
        None \<Rightarrow> Inl ValueError
      | Some x \<Rightarrow> (case map_float pyfloat cs of Inl e \<Rightarrow> Inl e | Inr xs \<Rightarrow> Inr (x # xs)))"

subsection \<open>\<open>ExistingDoc\<close>\<close>

record ExistingDoc =
  root_element :: element

definition ExistingDoc_NS :: "(string \<times> string) list" where
  "ExistingDoc_NS = [(''svg'', ''http://www.w3.org/2000/svg'')]"

text \<open>
  \<open>viewBox\<close> (lines 28-40). Attribute values of a parsed document are strings, so
  the final \<^verbatim>\<open>else\<close> branch (a value that is neither \<^verbatim>\<open>str\<close> nor \<^verbatim>\<open>None\<close>) has
  no input here.
\<close>

definition viewBox :: "(string \<Rightarrow> real option) \<Rightarrow> 'a ExistingDoc_scheme \<Rightarrow> error + real list option" where
  "viewBox pyfloat self =
     (case map_of (attrib (root_element self)) ''viewBox'' of
        Some vbox \<Rightarrow>
          (let coords = re_findall vbox
           in if length coords \<noteq> 4 then Inl ParseError
              else (case map_float pyfloat coords of
                      Inl e \<Rightarrow> Inl e
                    | Inr xs \<Rightarrow> Inr (Some xs)))
      | None \<Rightarrow> Inr None)"

text \<open>\<open>getLayer\<close> (lines 42-44).\<close>

definition getLayer :: "'a ExistingDoc_scheme \<Rightarrow> string \<Rightarrow> error + element option" where
  "getLayer self layer_id =
     (let elementXpath = ''svg:g[@id='' @ [apostrophe] @ layer_id @ [apostrophe] @ '']''
      in ET_find (root_element self) elementXpath (PyDict ExistingDoc_NS))"

text \<open>
  \<open>getLayersByID_dict\<close> (lines 46-64). The loop body is \<open>collect_layers\<close>; the
  second argument of \<^verbatim>\<open>findall\<close> is the bare name \<^verbatim>\<open>_NS\<close>, read as a global.
\<close>

fun collect_layers :: "string set \<Rightarrow> element list \<Rightarrow> (string \<rightharpoonup> element) \<Rightarrow> error + (string \<rightharpoonup> element)" where
  "collect_layers ids [] result = Inr result"
| "collect_layers ids (el # els) result =
     (case map_of (attrib el) ''id'' of
        None \<Rightarrow> collect_layers ids els result
      | Some i \<Rightarrow>
          if i \<in> ids then
            (if result i \<noteq> None then Inl ParseError
             else collect_layers ids els (result(i \<mapsto> el)))
          else collect_layers ids els result)"

definition getLayersByID_dict :: "'a ExistingDoc_scheme \<Rightarrow> string set \<Rightarrow> error + (string \<rightharpoonup> element)" where
  "getLayersByID_dict self ids =
     (let elementXpath = ''svg:g[@id]''; result = Map.empty
      in case load_global ''_NS'' of
           Inl e \<Rightarrow> Inl e
         | Inr ns \<Rightarrow>
             (case ET_findall (root_element self) elementXpath ns of
                Inl e \<Rightarrow> Inl e
              | Inr els \<Rightarrow> collect_layers ids els result))"

subsection \<open>\<open>NumDocTrafo\<close>\<close>

text \<open>
  The instance after \<^verbatim>\<open>__init__\<close>: the attributes it assigns, the two maps among
  them, as the source creates \<^verbatim>\<open>h2x\<close> and \<^verbatim>\<open>v2y\<close> as instance properties that
  capture \<^verbatim>\<open>h1\<close>, \<^verbatim>\<open>x1\<close>, the scale and the delta function.
\<close>

record NumDocTrafo =
  h1 :: real
  h2 :: real
  v1 :: real
  v2 :: real
  x1 :: real
  y1 :: real
  HXscale :: real
  VYscale :: real
  h2x :: "real \<Rightarrow> real"
  v2y :: "real \<Rightarrow> real"

text \<open>
  Python's \<^verbatim>\<open>/\<close> on numbers raises ZeroDivisionError on a zero divisor. On the
  numbers of \<open>py_number\<close> it raises nothing else, and its result is the quotient,
  rounded (to an infinity when it is too large for a float). A larger \<^verbatim>\<open>int\<close>
  operand raises OverflowError and a non-finite float operand gives a NaN or an
  infinity; neither is an input of this model.
\<close>

definition py_truediv :: "real \<Rightarrow> real \<Rightarrow> error + real" where
  "py_truediv a b = (if b = 0 then Inl ZeroDivisionError else Inr (a / b))"

text \<open>
  \<^verbatim>\<open>self.x1, self.y1, width, height = viewBox\<close> (line 128): \<^verbatim>\<open>None\<close> cannot be
  unpacked (TypeError), a sequence of another length than four is a ValueError.
\<close>

definition unpack_viewBox :: "real list option \<Rightarrow> error + (real \<times> real \<times> real \<times> real)" where
  "unpack_viewBox vb =
     (case vb of
        None \<Rightarrow> Inl TypeError
      | Some [a, b, c, d] \<Rightarrow> Inr (a, b, c, d)
      | Some _ \<Rightarrow> Inl ValueError)"

text \<open>Lines 130-144: the horizontal scale and map.\<close>

definition init_H :: "real \<Rightarrow> real \<Rightarrow> real \<Rightarrow> real \<Rightarrow> (real \<Rightarrow> real \<Rightarrow> real) option
    \<Rightarrow> error + (real \<times> (real \<Rightarrow> real))" where
  "init_H width a1 a2 xa deltaFnH =
     (case deltaFnH of
        Some D \<Rightarrow>
          (case py_truediv width (D a1 a2) of
             Inl e \<Rightarrow> Inl e
           | Inr sc \<Rightarrow> Inr (sc, \<lambda>h. D a1 h * sc + xa))
      | None \<Rightarrow>
          (case py_truediv width (a2 - a1) of
             Inl e \<Rightarrow> Inl e
           | Inr sc \<Rightarrow> Inr (sc, \<lambda>h. (h - a1) * sc + xa)))"

text \<open>
  Lines 146-160: the vertical scale and map. The dividend is \<^verbatim>\<open>width\<close> in both
  branches, as in the source; \<^verbatim>\<open>height\<close> is unpacked in line 128 and not read again.
\<close>

definition init_V :: "real \<Rightarrow> real \<Rightarrow> real \<Rightarrow> real \<Rightarrow> real \<Rightarrow> (real \<Rightarrow> real \<Rightarrow> real) option
    \<Rightarrow> error + (real \<times> (real \<Rightarrow> real))" where
  "init_V width height b1 b2 ya deltaFnV =
     (case deltaFnV of
        Some D \<Rightarrow>
          (case py_truediv width (D b1 b2) of
             Inl e \<Rightarrow> Inl e
           | Inr sc \<Rightarrow> Inr (sc, \<lambda>v. D b1 v * sc + ya))
      | None \<Rightarrow>
          (case py_truediv width (b2 - b1) of
             Inl e \<Rightarrow> Inl e
           | Inr sc \<Rightarrow> Inr (sc, \<lambda>v. (v - b1) * sc + ya)))"

definition NumDocTrafo_init :: "real list option \<Rightarrow> real \<times> real \<Rightarrow> real \<times> real
    \<Rightarrow> (real \<Rightarrow> real \<Rightarrow> real) option \<Rightarrow> (real \<Rightarrow> real \<Rightarrow> real) option \<Rightarrow> error + NumDocTrafo" where
  "NumDocTrafo_init viewBox' hrange vrange deltaFnH deltaFnV =
     (case unpack_viewBox viewBox' of
        Inl e \<Rightarrow> Inl e
      | Inr (xa, ya, width, height) \<Rightarrow>
          (case init_H width (fst hrange) (snd hrange) xa deltaFnH of
             Inl e \<Rightarrow> Inl e
           | Inr (hsc, fh) \<Rightarrow>
               (case init_V width height (fst vrange) (snd vrange) ya deltaFnV of
                  Inl e \<Rightarrow> Inl e
                | Inr (vsc, fv) \<Rightarrow>
                    Inr \<lparr>h1 = fst hrange, h2 = snd hrange, v1 = fst vrange, v2 = snd vrange,
                         x1 = xa, y1 = ya, HXscale = hsc, VYscale = vsc, h2x = fh, v2y = fv\<rparr>)))"

subsection \<open>\<open>ScaledInjectionPoint\<close>\<close>

text \<open>
  The target is what the constructor was given: an element, or \<^verbatim>\<open>None\<close> when it
  comes from a \<open>getLayer\<close> that found nothing.
\<close>

record ScaledInjectionPoint = NumDocTrafo +
  target :: "element option"

definition ScaledInjectionPoint_init :: "element option \<Rightarrow> real list option \<Rightarrow> real \<times> real \<Rightarrow> real \<times> real
    \<Rightarrow> (real \<Rightarrow> real \<Rightarrow> real) option \<Rightarrow> (real \<Rightarrow> real \<Rightarrow> real) option \<Rightarrow> error + ScaledInjectionPoint" where
  "ScaledInjectionPoint_init target_element viewBox' hrange vrange deltaFnH deltaFnV =
     (case NumDocTrafo_init viewBox' hrange vrange deltaFnH deltaFnV of
        Inl e \<Rightarrow> Inl e
      | Inr t \<Rightarrow> Inr (NumDocTrafo.extend t (ScaledInjectionPoint.fields target_element)))"

text \<open>
  \<open>inject\<close> (lines 188-195) returns the outcome of the call together with the
  injection point afterwards, whose target holds the appended child. In both
  branches Python evaluates \<^verbatim>\<open>self.target.append\<close> before the argument, so a
  \<^verbatim>\<open>None\<close> target is an AttributeError, which the \<^verbatim>\<open>except\<close> clause of line 194
  does not catch. The element branch appends the bare name \<^verbatim>\<open>inj\<close>, read as a
  global; the text branch turns the parser's ParseError and TypeError into the
  module's ParseError and lets every other exception of the parser pass.
\<close>

definition inject :: "(nat list \<Rightarrow> element option) \<Rightarrow> ScaledInjectionPoint \<Rightarrow> pyobj
    \<Rightarrow> (error + unit) \<times> ScaledInjectionPoint" where
  "inject parse self content =
     (case content of
        PyElement _ \<Rightarrow>
          (case target self of
             None \<Rightarrow> (Inl AttributeError, self)
           | Some t \<Rightarrow>
               (case load_global ''inj'' of
                  Inl e \<Rightarrow> (Inl e, self)
                | Inr inj_obj \<Rightarrow>
                    (case Element_append t inj_obj of
                       Inl e \<Rightarrow> (Inl e, self)
                     | Inr t' \<Rightarrow> (Inr (), self\<lparr>target := Some t'\<rparr>))))
      | _ \<Rightarrow>
          (case target self of
             None \<Rightarrow> (Inl AttributeError, self)
           | Some t \<Rightarrow>
               (case ET_fromstring parse content of
                  Inl ET_ParseError \<Rightarrow> (Inl ParseError, self)
                | Inl TypeError \<Rightarrow> (Inl ParseError, self)
                | Inl e \<Rightarrow> (Inl e, self)
                | Inr n \<Rightarrow>
                    (case Element_append t (PyElement n) of
                       Inl TypeError \<Rightarrow> (Inl ParseError, self)
                     | Inl e \<Rightarrow> (Inl e, self)
                     | Inr t' \<Rightarrow> (Inr (), self\<lparr>target := Some t'\<rparr>)))))"

text \<open>A caller making several \<open>inject\<close> calls in a row, going on after an exception.\<close>

fun inject_each :: "(nat list \<Rightarrow> element option) \<Rightarrow> ScaledInjectionPoint \<Rightarrow> pyobj list \<Rightarrow> ScaledInjectionPoint" where
  "inject_each parse self [] = self"
| "inject_each parse self (c # cs) = inject_each parse (snd (inject parse self c)) cs"

text \<open>
  The nodes that a sequence of contents parses to: those of the texts that can be
  encoded and are well-formed.
\<close>

fun parsed_nodes :: "(nat list \<Rightarrow> element option) \<Rightarrow> pyobj list \<Rightarrow> element list" where
  "parsed_nodes parse [] = []"
| "parsed_nodes parse (c # cs) =
     (case ET_fromstring parse c of
        Inl _ \<Rightarrow> parsed_nodes parse cs
      | Inr e \<Rightarrow> e # parsed_nodes parse cs)"

subsection \<open>\<open>SVGDocInScale\<close>\<close>

text \<open>
  The keyword dictionary \<^verbatim>\<open>_deltaFnHV\<close> is the pair of its two possible entries,
  \<^verbatim>\<open>deltaFnH\<close> and \<^verbatim>\<open>deltaFnV\<close>, each absent (\<open>None\<close>) or a function.
\<close>

record SVGDocInScale = ExistingDoc +
  deltaFnHV :: "(real \<Rightarrow> real \<Rightarrow> real) option \<times> (real \<Rightarrow> real \<Rightarrow> real) option"

text \<open>
  \<open>getLayerInjector\<close> (lines 82-92): the arguments are evaluated in order, the
  layer first, then the viewBox, then the constructor runs.
\<close>

definition getLayerInjector :: "(string \<Rightarrow> real option) \<Rightarrow> SVGDocInScale \<Rightarrow> string
    \<Rightarrow> real \<times> real \<Rightarrow> real \<times> real \<Rightarrow> error + ScaledInjectionPoint" where
  "getLayerInjector pyfloat self layer_id hrange vrange =
     (case getLayer self layer_id of
        Inl e \<Rightarrow> Inl e
      | Inr layer \<Rightarrow>
          (case viewBox pyfloat self of
             Inl e \<Rightarrow> Inl e
           | Inr vb \<Rightarrow>
               ScaledInjectionPoint_init layer vb hrange vrange
                 (fst (deltaFnHV self)) (snd (deltaFnHV self))))"

subsection \<open>Notions used to state the properties\<close>

text \<open>
  The delta of an axis between two world values: plain subtraction unless a delta
  function is configured, as the two branches of \<open>init_H\<close> and \<open>init_V\<close> compute it.
\<close>

definition endpoint_delta :: "(real \<Rightarrow> real \<Rightarrow> real) option \<Rightarrow> real \<Rightarrow> real \<Rightarrow> real" where
  "endpoint_delta deltaFn a b = (case deltaFn of None \<Rightarrow> b - a | Some D \<Rightarrow> D a b)"

text \<open>
  The numbers on which Python's arithmetic in \<^verbatim>\<open>__init__\<close> raises what the model
  raises: the values of the finite IEEE doubles below \<open>2 ^ 1023\<close> in magnitude, a
  53-bit integer scaled by a power of two, held as a \<^verbatim>\<open>float\<close> or as an \<^verbatim>\<open>int\<close>.
  An \<^verbatim>\<open>int\<close> of this kind is converted to a float exactly; two such numbers differ
  by zero in Python exactly when they are equal, and by no more than the largest
  double; a float division raises nothing but ZeroDivisionError.
\<close>

definition py_number :: "real \<Rightarrow> bool" where
  "py_number x =
     (\<exists>(m::int) (p::nat) (q::nat).
        \<bar>m\<bar> < 2 ^ 53 \<and> p \<le> 970 \<and> q \<le> 1074 \<and> x = of_int m * 2 ^ p / 2 ^ q)"

text \<open>
  A configured delta function has returned a number of this kind on the endpoints;
  the default subtraction needs no such condition.
\<close>

definition delta_result_ok :: "(real \<Rightarrow> real \<Rightarrow> real) option \<Rightarrow> real \<Rightarrow> real \<Rightarrow> bool" where
  "delta_result_ok deltaFn a b = (case deltaFn of None \<Rightarrow> True | Some D \<Rightarrow> py_number (D a b))"

subsection \<open>Example inputs\<close>

definition svg_uri :: string where
  "svg_uri = ''http://www.w3.org/2000/svg''"

text \<open>
  Instances of the two library parameters for the examples. \<open>float_digits\<close> reads
  an unsigned decimal integer literal and rejects every other string; on the tokens
  of the examples (\<^verbatim>\<open>0\<close>, \<^verbatim>\<open>50\<close>, \<^verbatim>\<open>100\<close>, \<^verbatim>\<open>abc\<close>) this is what Python's
  \<^verbatim>\<open>float\<close> does. \<open>parse_circle\<close> parses the fragment \<^verbatim>\<open><circle/>\<close> and rejects
  every other string; the examples use it on that fragment and on \<^verbatim>\<open><circle\<close>.
\<close>

definition digit_of :: "char \<Rightarrow> nat option" where
  "digit_of c =
     (let n = (of_char c :: nat) in if 48 \<le> n \<and> n \<le> 57 then Some (n - 48) else None)"

fun digits_value :: "nat \<Rightarrow> string \<Rightarrow> nat option" where
  "digits_value acc [] = Some acc"
| "digits_value acc (c # cs) =
     (case digit_of c of None \<Rightarrow> None | Some d \<Rightarrow> digits_value (10 * acc + d) cs)"

definition float_digits :: "string \<Rightarrow> real option" where
  "float_digits s = (if s = [] then None else map_option real (digits_value 0 s))"

definition parse_circle :: "nat list \<Rightarrow> element option" where
  "parse_circle s =
     (if s = text_of ''<circle/>'' then Some (Element ''circle'' [] []) else None)"

definition svg_g :: "string \<Rightarrow> element list \<Rightarrow> element" where
  "svg_g i kids = Element (qname svg_uri ''g'') [(''id'', i)] kids"

text \<open>A document whose group \<^verbatim>\<open>inner\<close> is nested inside the top-level group \<^verbatim>\<open>outer\<close>.\<close>

definition doc_nested :: ExistingDoc where
  "doc_nested = \<lparr>root_element = Element (qname svg_uri ''svg'') [(''viewBox'', ''0 0 100 50'')]
      [svg_g ''outer'' [svg_g ''inner'' []], svg_g ''plot'' []]\<rparr>"

definition doc_plot :: SVGDocInScale where
  "doc_plot = \<lparr>root_element = Element (qname svg_uri ''svg'') [(''viewBox'', ''0 0 100 50'')]
      [svg_g ''plot'' []], deltaFnHV = (None, None)\<rparr>"

definition doc_no_viewBox :: SVGDocInScale where
  "doc_no_viewBox = \<lparr>root_element = Element (qname svg_uri ''svg'') [] [svg_g ''plot'' []],
      deltaFnHV = (None, None)\<rparr>"

definition doc_bad_viewBox :: ExistingDoc where
  "doc_bad_viewBox =
     \<lparr>root_element = Element (qname svg_uri ''svg'') [(''viewBox'', ''0 0 abc 50'')] []\<rparr>"

definition doc_duplicate :: ExistingDoc where
  "doc_duplicate = \<lparr>root_element = Element (qname svg_uri ''svg'') []
      [svg_g ''a'' [], svg_g ''a'' []]\<rparr>"

text \<open>
  The injection point that \<open>ScaledInjectionPoint_init\<close> builds for the box
  \<^verbatim>\<open>[0, 0, 100, 50]\<close> and the ranges \<^verbatim>\<open>(0, 10)\<close>, \<^verbatim>\<open>(0, 5)\<close>, on a target with one
  child, and the same with the target \<^verbatim>\<open>None\<close>.
\<close>

definition sip_plot :: ScaledInjectionPoint where
  "sip_plot = \<lparr>h1 = 0, h2 = 10, v1 = 0, v2 = 5, x1 = 0, y1 = 0, HXscale = 10, VYscale = 20,
      h2x = (\<lambda>h. (h - 0) * 10 + 0), v2y = (\<lambda>v. (v - 0) * 20 + 0),
      target = Some (svg_g ''plot'' [Element ''rect'' [] []])\<rparr>"

definition sip_no_target :: ScaledInjectionPoint where
  "sip_no_target = sip_plot\<lparr>target := None\<rparr>"

section \<open>Properties\<close>

subsection \<open>Name resolution and the path engine\<close>

lemma load_global_NS: "load_global ''_NS'' = Inl NameError"
  by (simp add: load_global_def module_globals_def module_attribute_names_def builtin_names_def)

lemma load_global_inj: "load_global ''inj'' = Inl NameError"
  by (simp add: load_global_def module_globals_def module_attribute_names_def builtin_names_def)

lemma id_literal_path:
  "apostrophe \<notin> set v \<Longrightarrow>
     id_literal (''svg:g[@id='' @ [apostrophe] @ v @ [apostrophe] @ '']'') = Some v"
  by (simp add: id_literal_def)

lemma first_of_filter:
  "(case filter P xs of [] \<Rightarrow> Inr None | x # _ \<Rightarrow> Inr (Some x)) = Inr (List.find P xs)"
  by (induction xs) auto

lemma layer_path_not_findall:
  "''svg:g[@id='' @ [apostrophe] @ v @ [apostrophe] @ '']'' \<noteq> ''svg:g[@id]''"
  by (simp add: apostrophe_def)

lemma getLayer_direct_children:
  assumes "apostrophe \<notin> set i"
  shows "getLayer self i =
     Inr (List.find (\<lambda>e. tag e = qname ''http://www.w3.org/2000/svg'' ''g''
                          \<and> map_of (attrib e) ''id'' = Some i)
            (children (root_element self)))"
  using assms layer_path_not_findall [of i]
  by (simp add: getLayer_def ET_find_def ET_iterfind_def prefix_map_def ExistingDoc_NS_def
      id_literal_path first_of_filter del: append.simps)

subsection \<open>The coordinate transform\<close>

lemma py_number_of_int: "\<bar>n\<bar> < 2 ^ 53 \<Longrightarrow> py_number (of_int n)"
  unfolding py_number_def
  by (rule exI [of _ n], rule exI [of _ 0], rule exI [of _ 0]) simp

lemma py_number_examples:
  "py_number 0" "py_number 1" "py_number 2" "py_number 3" "py_number 4" "py_number 5"
  "py_number 10" "py_number 50" "py_number 100"
  using py_number_of_int [of 0] py_number_of_int [of 1] py_number_of_int [of 2]
    py_number_of_int [of 3] py_number_of_int [of 4] py_number_of_int [of 5]
    py_number_of_int [of 10] py_number_of_int [of 50] py_number_of_int [of 100]
  by simp_all

lemma init_H_error: "init_H w a b x dH = Inl e \<Longrightarrow> e = ZeroDivisionError"
  by (cases dH) (auto simp: init_H_def py_truediv_def split: if_splits)

lemma init_V_error: "init_V w h a b y dV = Inl e \<Longrightarrow> e = ZeroDivisionError"
  by (cases dV) (auto simp: init_V_def py_truediv_def split: if_splits)

lemma unpack_viewBox_error:
  "unpack_viewBox vb = Inl e \<Longrightarrow> e = TypeError \<or> e = ValueError"
  by (auto simp: unpack_viewBox_def split: option.splits list.splits)

lemma NumDocTrafo_init_error:
  "NumDocTrafo_init vb hr vr dH dV = Inl e \<Longrightarrow>
     e = TypeError \<or> e = ValueError \<or> e = ZeroDivisionError"
  by (auto simp: NumDocTrafo_init_def split: sum.splits prod.splits
      dest: unpack_viewBox_error init_H_error init_V_error)

lemma unpack_viewBox_four: "unpack_viewBox (Some [a, b, c, d]) = Inr (a, b, c, d)"
  by (simp add: unpack_viewBox_def)

lemma init_H_zero: "endpoint_delta dH a b = 0 \<Longrightarrow> init_H w a b x dH = Inl ZeroDivisionError"
  by (cases dH) (simp_all add: init_H_def endpoint_delta_def py_truediv_def)

lemma init_V_zero: "endpoint_delta dV a b = 0 \<Longrightarrow> init_V w h a b y dV = Inl ZeroDivisionError"
  by (cases dV) (simp_all add: init_V_def endpoint_delta_def py_truediv_def)

lemma init_H_nonzero:
  "endpoint_delta dH a b \<noteq> 0 \<Longrightarrow>
     init_H w a b x dH =
       Inr (w / endpoint_delta dH a b,
            \<lambda>h. endpoint_delta dH a h * (w / endpoint_delta dH a b) + x)"
  by (cases dH) (simp_all add: init_H_def endpoint_delta_def py_truediv_def)

lemma init_V_nonzero:
  "endpoint_delta dV a b \<noteq> 0 \<Longrightarrow>
     init_V w h a b y dV =
       Inr (w / endpoint_delta dV a b,
            \<lambda>v. endpoint_delta dV a v * (w / endpoint_delta dV a b) + y)"
  by (cases dV) (simp_all add: init_V_def endpoint_delta_def py_truediv_def)

lemma NumDocTrafo_init_zero:
  assumes "endpoint_delta dH a1 a2 = 0 \<or> endpoint_delta dV b1 b2 = 0"
  shows "NumDocTrafo_init (Some [x, y, w, h]) (a1, a2) (b1, b2) dH dV = Inl ZeroDivisionError"
proof (cases "endpoint_delta dH a1 a2 = 0")
  case True
  then show ?thesis
    by (simp add: NumDocTrafo_init_def unpack_viewBox_four init_H_zero)
next
  case False
  with assms have "endpoint_delta dV b1 b2 = 0" by simp
  with False show ?thesis
    by (simp add: NumDocTrafo_init_def unpack_viewBox_four init_H_nonzero init_V_zero)
qed

lemma NumDocTrafo_init_nonzero:
  assumes "endpoint_delta dH a1 a2 \<noteq> 0" and "endpoint_delta dV b1 b2 \<noteq> 0"
  shows "NumDocTrafo_init (Some [x, y, w, h]) (a1, a2) (b1, b2) dH dV =
     Inr \<lparr>h1 = a1, h2 = a2, v1 = b1, v2 = b2, x1 = x, y1 = y,
          HXscale = w / endpoint_delta dH a1 a2, VYscale = w / endpoint_delta dV b1 b2,
          h2x = (\<lambda>h. endpoint_delta dH a1 h * (w / endpoint_delta dH a1 a2) + x),
          v2y = (\<lambda>v. endpoint_delta dV b1 v * (w / endpoint_delta dV b1 b2) + y)\<rparr>"
  using assms
  by (simp add: NumDocTrafo_init_def unpack_viewBox_four init_H_nonzero init_V_nonzero)

lemma NumDocTrafo_init_zero_fails:
  assumes "endpoint_delta dH a1 a2 = 0 \<or> endpoint_delta dV b1 b2 = 0"
  shows "isl (NumDocTrafo_init vb (a1, a2) (b1, b2) dH dV)"
proof (cases "unpack_viewBox vb")
  case (Inl e)
  then show ?thesis by (simp add: NumDocTrafo_init_def)
next
  case (Inr q)
  obtain x y w h where q: "q = (x, y, w, h)" by (cases q) auto
  show ?thesis
  proof (cases "endpoint_delta dH a1 a2 = 0")
    case True
    then show ?thesis by (simp add: NumDocTrafo_init_def Inr q init_H_zero)
  next
    case False
    with assms have "endpoint_delta dV b1 b2 = 0" by simp
    with False show ?thesis
      by (simp add: NumDocTrafo_init_def Inr q init_H_nonzero init_V_zero)
  qed
qed

text \<open>
  In exact arithmetic, with the default deltas and non-degenerate ranges the
  horizontal map sends the range onto \<open>[x, x + w]\<close>, and the vertical map sends its range onto \<open>[y, y + w]\<close>:
  the far edge is the box's width away on both axes, whatever the height \<open>h\<close> is.
\<close>

lemma default_maps_at_endpoints:
  assumes "a1 \<noteq> a2" and "b1 \<noteq> b2"
  shows "\<exists>t. NumDocTrafo_init (Some [x, y, w, h]) (a1, a2) (b1, b2) None None = Inr t
     \<and> h2x t a1 = x \<and> h2x t a2 = x + w \<and> v2y t b1 = y \<and> v2y t b2 = y + w"
  using assms
  by (simp add: NumDocTrafo_init_nonzero endpoint_delta_def)

text \<open>
  C1 (the code departs from the claim). The claim: with default deltas and
  non-degenerate ranges the maps send the range endpoints to the near and far edge
  of the box, \<open>h2x h1 = x1\<close>, \<open>h2x h2 = x1 + width\<close>, \<open>v2y v1 = y1\<close> and
  \<open>v2y v2 = y1 + height\<close>. For the box \<^verbatim>\<open>[0, 0, 100, 50]\<close> and the ranges
  \<^verbatim>\<open>(0, 10)\<close>, \<^verbatim>\<open>(0, 5)\<close> the code computes \<open>v2y 5 = 100\<close>, the width, where the far
  edge is at 50; the other three values are the edges.
\<close>

theorem C1_vertical_far_edge_is_width:
  "map_sum id (\<lambda>t. (h2x t 0, h2x t 10, v2y t 0, v2y t 5))
     (NumDocTrafo_init (Some [0, 0, 100, 50]) (0, 10) (0, 5) None None) = Inr (0, 100, 0, 100)"
  by (simp add: NumDocTrafo_init_def unpack_viewBox_def init_H_def init_V_def py_truediv_def)

text \<open>
  C2, counterexample. The claim names the exception DegenerateRangeError. Built with
  \<open>h1 = h2 = 3\<close> under the default delta, the transform fails with Python's
  ZeroDivisionError, raised by the division of line 140.
\<close>

theorem C2_degenerate_range_counterexample:
  "NumDocTrafo_init (Some [0, 0, 100, 50]) (3, 3) (0, 5) None None = Inl ZeroDivisionError
   \<and> NumDocTrafo_init (Some [0, 0, 100, 50]) (3, 3) (0, 5) None None \<noteq> Inl DegenerateRangeError"
  by (simp add: NumDocTrafo_init_def unpack_viewBox_def init_H_def init_V_def py_truediv_def)

text \<open>
  C2, as amended. For a box of four numbers, world ranges and results of the
  configured delta functions that are numbers of \<open>py_number\<close> (ints or finite floats
  below \<open>2 ^ 1023\<close> in magnitude): whenever the endpoint delta of either axis is zero,
  in particular with \<open>h1 = h2\<close> under the default delta, constructing a NumDocTrafo
  or a ScaledInjectionPoint fails with ZeroDivisionError; and whatever box of such
  numbers is passed, also \<^verbatim>\<open>None\<close> or a list of another length, the construction
  fails, so no transform is ever built over a zero delta.
\<close>

theorem C2_zero_delta_raises_ZeroDivisionError:
  assumes "list_all py_number [x, y, w, h, a1, a2, b1, b2]"
    and "delta_result_ok dH a1 a2" and "delta_result_ok dV b1 b2"
    and "case vb of None \<Rightarrow> True | Some l \<Rightarrow> list_all py_number l"
    and "endpoint_delta dH a1 a2 = 0 \<or> endpoint_delta dV b1 b2 = 0"
  shows "NumDocTrafo_init (Some [x, y, w, h]) (a1, a2) (b1, b2) dH dV = Inl ZeroDivisionError
     \<and> ScaledInjectionPoint_init tg (Some [x, y, w, h]) (a1, a2) (b1, b2) dH dV
         = Inl ZeroDivisionError
     \<and> isl (NumDocTrafo_init vb (a1, a2) (b1, b2) dH dV)
     \<and> isl (ScaledInjectionPoint_init tg vb (a1, a2) (b1, b2) dH dV)"
proof -
  have z: "NumDocTrafo_init (Some [x, y, w, h]) (a1, a2) (b1, b2) dH dV = Inl ZeroDivisionError"
    using assms(5) by (rule NumDocTrafo_init_zero)
  have f: "isl (NumDocTrafo_init vb (a1, a2) (b1, b2) dH dV)"
    using assms(5) by (rule NumDocTrafo_init_zero_fails)
  from f have "isl (ScaledInjectionPoint_init tg vb (a1, a2) (b1, b2) dH dV)"
    by (auto simp: ScaledInjectionPoint_init_def isl_def)
  with z f show ?thesis
    by (simp add: ScaledInjectionPoint_init_def)
qed

text \<open>
  C2, witness: a vertical range \<^verbatim>\<open>(5, 5)\<close> under a custom vertical delta function
  that subtracts, on the box \<^verbatim>\<open>[0, 0, 100, 50]\<close> and with no box at all.
\<close>

theorem C2_zero_delta_witness:
  "NumDocTrafo_init (Some [0, 0, 100, 50]) (0, 10) (5, 5) None (Some (\<lambda>a b. b - a))
     = Inl ZeroDivisionError
   \<and> ScaledInjectionPoint_init None (Some [0, 0, 100, 50]) (0, 10) (5, 5) None (Some (\<lambda>a b. b - a))
     = Inl ZeroDivisionError
   \<and> isl (NumDocTrafo_init None (0, 10) (5, 5) None (Some (\<lambda>a b. b - a)))
   \<and> isl (ScaledInjectionPoint_init None None (0, 10) (5, 5) None (Some (\<lambda>a b. b - a)))"
proof -
  have n: "list_all py_number [0, 0, 100, 50, 0, 10, 5, 5]"
    by (simp add: py_number_examples)
  have dh: "delta_result_ok None 0 10"
    by (simp add: delta_result_ok_def)
  have dv: "delta_result_ok (Some (\<lambda>a b. b - a)) 5 5"
    by (simp add: delta_result_ok_def py_number_examples)
  have b: "case None :: real list option of None \<Rightarrow> True | Some l \<Rightarrow> list_all py_number l"
    by simp
  have z: "endpoint_delta None 0 10 = 0 \<or> endpoint_delta (Some (\<lambda>a b. b - a)) 5 5 = 0"
    by (simp add: endpoint_delta_def)
  show ?thesis
    using C2_zero_delta_raises_ZeroDivisionError [OF n dh dv b z, of None] by simp
qed

subsection \<open>The document model\<close>

lemma viewBox_absent:
  "map_of (attrib (root_element self)) ''viewBox'' = None \<Longrightarrow> viewBox pyfloat self = Inr None"
  by (simp add: viewBox_def)

lemma viewBox_wrong_count:
  "map_of (attrib (root_element self)) ''viewBox'' = Some vbox \<Longrightarrow>
   length (re_findall vbox) \<noteq> 4 \<Longrightarrow>
   viewBox pyfloat self = Inl ParseError"
  by (simp add: viewBox_def)

lemma map_float_error:
  "map_float pyfloat cs = Inl e \<Longrightarrow> e = ValueError \<and> (\<exists>c \<in> set cs. pyfloat c = None)"
  by (induction cs) (auto split: option.splits sum.splits)

lemma map_float_rejects:
  "c \<in> set cs \<Longrightarrow> pyfloat c = None \<Longrightarrow> map_float pyfloat cs = Inl ValueError"
  by (induction cs) (auto split: option.splits sum.splits dest: map_float_error)

lemma viewBox_four_numeric:
  "map_of (attrib (root_element self)) ''viewBox'' = Some vbox \<Longrightarrow>
   re_findall vbox = [a, b, c, d] \<Longrightarrow>
   pyfloat a = Some x \<Longrightarrow> pyfloat b = Some y \<Longrightarrow> pyfloat c = Some w \<Longrightarrow> pyfloat d = Some h \<Longrightarrow>
   viewBox pyfloat self = Inr (Some [x, y, w, h])"
  by (simp add: viewBox_def)

text \<open>
  Four tokens of which \<^verbatim>\<open>float\<close> rejects one: the ValueError of \<^verbatim>\<open>float\<close> leaves
  \<open>viewBox\<close> as it is, since line 36 is not inside a \<^verbatim>\<open>try\<close>.
\<close>

lemma viewBox_non_numeric:
  "map_of (attrib (root_element self)) ''viewBox'' = Some vbox \<Longrightarrow>
   length (re_findall vbox) = 4 \<Longrightarrow> c \<in> set (re_findall vbox) \<Longrightarrow> pyfloat c = None \<Longrightarrow>
   viewBox pyfloat self = Inl ValueError"
  by (simp add: viewBox_def map_float_rejects)

text \<open>
  C6 (the code departs from the claim). The claim: \<open>viewBox\<close> returns no box for an
  absent attribute, the four numbers for exactly four numeric tokens, and fails with
  ParseError for any other token count or for a non-numeric token. On the attribute
  \<^verbatim>\<open>0 0 abc 50\<close>, four tokens with a non-numeric one, the code raises ValueError.
\<close>

theorem C6_non_numeric_token_is_ValueError:
  "viewBox float_digits doc_bad_viewBox = Inl ValueError"
  by (simp add: viewBox_def doc_bad_viewBox_def re_findall_def is_sep_def float_digits_def
      digit_of_def)

text \<open>
  C7 (the code departs from the claim). The claim: the bulk lookup fails with
  ParseError on a document with two groups sharing a requested id, and otherwise
  returns the mapping of the requested ids that are present. On a document with two
  top-level groups of id \<^verbatim>\<open>a\<close> and the request \<^verbatim>\<open>{a}\<close> the code raises NameError.
\<close>

theorem C7_duplicate_ids_raise_NameError:
  "getLayersByID_dict doc_duplicate {''a''} = Inl NameError"
  by (simp add: getLayersByID_dict_def load_global_NS)

text \<open>
  C8, counterexample. The claim has \<open>getLayer\<close> search nested groups as well. In
  \<open>doc_nested\<close> the group \<^verbatim>\<open>inner\<close> is a child of the top-level group \<^verbatim>\<open>outer\<close>:
  \<open>getLayer\<close> from the root does not find it, while the same search started at
  \<^verbatim>\<open>outer\<close> does.
\<close>

theorem C8_nested_layer_counterexample:
  "getLayer doc_nested ''inner'' = Inr None
   \<and> getLayer \<lparr>root_element = hd (children (root_element doc_nested))\<rparr> ''inner''
       = Inr (Some (svg_g ''inner'' []))"
  by (simp add: getLayer_direct_children apostrophe_def doc_nested_def svg_g_def svg_uri_def)

text \<open>
  C8, as amended. For every identifier without an apostrophe, \<open>getLayer\<close> raises
  nothing and returns the first, in document order, of the direct children of the
  root that are \<^verbatim>\<open>g\<close> elements of the SVG namespace with that \<^verbatim>\<open>id\<close>, or \<^verbatim>\<open>None\<close>
  when there is none; groups nested deeper are not searched.
\<close>

theorem C8_getLayer_first_direct_child:
  assumes "apostrophe \<notin> set i"
  shows "getLayer self i =
     Inr (List.find (\<lambda>e. tag e = qname ''http://www.w3.org/2000/svg'' ''g''
                          \<and> map_of (attrib e) ''id'' = Some i)
            (children (root_element self)))"
  using assms by (rule getLayer_direct_children)

text \<open>C8, witness: a top-level group that is found, and an id that no group has.\<close>

theorem C8_getLayer_witness:
  "getLayer doc_nested ''plot'' = Inr (Some (svg_g ''plot'' []))
   \<and> getLayer doc_nested ''missing'' = Inr None"
  using C8_getLayer_first_direct_child [of "''plot''" doc_nested]
    C8_getLayer_first_direct_child [of "''missing''" doc_nested]
  by (simp add: apostrophe_def doc_nested_def svg_g_def svg_uri_def)

text \<open>
  C9. For every document and every set of requested identifiers,
  \<open>getLayersByID_dict\<close> raises NameError: the name \<^verbatim>\<open>_NS\<close> of line 58 is bound
  neither at module level nor as a built-in, and it is evaluated before \<^verbatim>\<open>findall\<close>
  is called, so no element is inspected, no mapping is returned and the ParseError
  of line 62 is never reached.
\<close>

theorem C9_getLayersByID_dict_raises_NameError:
  "getLayersByID_dict self ids = Inl NameError"
  by (simp add: getLayersByID_dict_def load_global_NS)

text \<open>C9, at a document without duplicates and a request with a present and an absent id.\<close>

theorem C9_getLayersByID_dict_witness:
  "getLayersByID_dict doc_nested {''plot'', ''missing''} = Inl NameError"
  using C9_getLayersByID_dict_raises_NameError [of doc_nested "{''plot'', ''missing''}"]
  by simp

subsection \<open>Injection\<close>

text \<open>The example injection point is the one the constructor builds.\<close>

lemma sip_plot_constructed:
  "ScaledInjectionPoint_init (Some (svg_g ''plot'' [Element ''rect'' [] []]))
     (Some [0, 0, 100, 50]) (0, 10) (0, 5) None None = Inr sip_plot"
  by (simp add: ScaledInjectionPoint_init_def NumDocTrafo_init_nonzero endpoint_delta_def
      sip_plot_def NumDocTrafo.defs ScaledInjectionPoint.defs)

lemma inject_element:
  "inject parse self (PyElement e) =
     (Inl (case target self of None \<Rightarrow> AttributeError | Some t \<Rightarrow> NameError), self)"
  by (simp add: inject_def load_global_inj split: option.splits)

lemma inject_text_ok:
  "target self = Some t \<Longrightarrow> \<not> list_ex is_surrogate s \<Longrightarrow> parse s = Some e \<Longrightarrow>
     inject parse self (PyStr s) =
       (Inr (), self\<lparr>target := Some (Element (tag t) (attrib t) (children t @ [e]))\<rparr>)"
  by (simp add: inject_def ET_fromstring_def Element_append_def)

lemma inject_text_malformed:
  "target self = Some t \<Longrightarrow> \<not> list_ex is_surrogate s \<Longrightarrow> parse s = None \<Longrightarrow>
     inject parse self (PyStr s) = (Inl ParseError, self)"
  by (simp add: inject_def ET_fromstring_def)

text \<open>
  A text with a surrogate code point: the UnicodeEncodeError of the encoding is not
  among the exceptions that line 194 catches.
\<close>

lemma inject_text_surrogate:
  "target self = Some t \<Longrightarrow> list_ex is_surrogate s \<Longrightarrow>
     inject parse self (PyStr s) = (Inl UnicodeEncodeError, self)"
  by (simp add: inject_def ET_fromstring_def)

lemma inject_other:
  "target self = Some t \<Longrightarrow> \<forall>e. c \<noteq> PyElement e \<Longrightarrow> \<forall>s. c \<noteq> PyStr s \<Longrightarrow>
     inject parse self c = (Inl ParseError, self)"
  by (cases c) (simp_all add: inject_def ET_fromstring_def)

lemma inject_no_target:
  "target self = None \<Longrightarrow> inject parse self c = (Inl AttributeError, self)"
  by (cases c) (simp_all add: inject_def)

text \<open>One call: the target gains the node the content parses to, if any, at the end.\<close>

lemma inject_target:
  assumes "target self = Some t"
  shows "target (snd (inject parse self c)) =
     Some (Element (tag t) (attrib t)
       (children t @ (case ET_fromstring parse c of Inl _ \<Rightarrow> [] | Inr e \<Rightarrow> [e])))"
proof (cases c)
  case (PyStr s)
  show ?thesis
  proof (cases "list_ex is_surrogate s")
    case True
    with assms PyStr show ?thesis
      by (simp add: inject_text_surrogate ET_fromstring_def)
  next
    case False
    with assms PyStr show ?thesis
      by (cases "parse s") (simp_all add: inject_text_ok inject_text_malformed ET_fromstring_def)
  qed
next
  case (PyElement e)
  with assms show ?thesis by (simp add: inject_element ET_fromstring_def)
qed (use assms in \<open>simp_all add: inject_other ET_fromstring_def\<close>)

lemma inject_each_children:
  "target self = Some t \<Longrightarrow>
     target (inject_each parse self cs) =
       Some (Element (tag t) (attrib t) (children t @ parsed_nodes parse cs))"
proof (induction cs arbitrary: self t)
  case Nil
  then show ?case by simp
next
  case (Cons c cs)
  from inject_target [OF Cons.prems, of parse c]
  show ?case
    by (cases "ET_fromstring parse c") (simp_all add: Cons.IH)
qed

text \<open>
  What \<open>inject\<close> does with text that can be encoded, on a target that is an element
  \<open>t\<close>: a string that parses to a node \<open>e\<close> is appended, leaving the children
  \<open>children t @ [e]\<close>, one more than before, the new node last and the earlier ones
  unchanged in content and order; a string that does not parse raises ParseError and
  leaves the injection point as it was; and after any sequence of \<open>inject\<close> calls the
  children are the original ones followed by the nodes parsed, in call order.
\<close>

lemma inject_text_appends_last:
  assumes "target self = Some t" and "\<not> list_ex is_surrogate s"
  shows "(parse s = Some e \<longrightarrow>
            inject parse self (PyStr s) =
              (Inr (), self\<lparr>target := Some (Element (tag t) (attrib t) (children t @ [e]))\<rparr>))
     \<and> (parse s = None \<longrightarrow> inject parse self (PyStr s) = (Inl ParseError, self))
     \<and> target (inject_each parse self cs) =
         Some (Element (tag t) (attrib t) (children t @ parsed_nodes parse cs))"
  using assms by (simp add: inject_text_ok inject_text_malformed inject_each_children)

lemma inject_circle_examples:
  "inject parse_circle sip_plot (PyStr (text_of ''<circle/>'')) =
     (Inr (), sip_plot\<lparr>target := Some (svg_g ''plot'' [Element ''rect'' [] [], Element ''circle'' [] []])\<rparr>)"
  "inject parse_circle sip_plot (PyStr (text_of ''<circle'')) = (Inl ParseError, sip_plot)"
  by (simp_all add: inject_def ET_fromstring_def Element_append_def parse_circle_def text_of_def
      is_surrogate_def sip_plot_def svg_g_def)

text \<open>
  C4 (the code departs from the claim). The claim: on a target with N children a
  well-formed fragment is appended as child N+1, a malformed string raises ParseError
  and leaves the N children, and successive calls append in call order. The string
  made of \<^verbatim>\<open><a>\<close>, the lone surrogate \<^verbatim>\<open>U+D800\<close> and \<^verbatim>\<open></a>\<close> is malformed;
  \<open>inject\<close> raises UnicodeEncodeError on it, whatever the parser is, and the one
  child of the target stays.
\<close>

theorem C4_surrogate_text_raises_UnicodeEncodeError:
  "inject parse sip_plot (PyStr (text_of ''<a>'' @ [55296] @ text_of ''</a>''))
     = (Inl UnicodeEncodeError, sip_plot)"
  by (simp add: inject_def ET_fromstring_def is_surrogate_def text_of_def sip_plot_def)

text \<open>
  C5 (the code departs from the claim). The claim: \<open>inject\<close> called with an element
  appends that element as the last child of the target. On a target with one child
  and the element \<^verbatim>\<open>circle\<close> the code raises NameError and appends nothing, whatever
  the parser is.
\<close>

theorem C5_inject_element_raises_NameError:
  "inject parse sip_plot (PyElement (Element ''circle'' [] [])) = (Inl NameError, sip_plot)"
  by (simp add: inject_def load_global_inj sip_plot_def)

text \<open>
  C10, counterexample. The claim has every injection point raise NameError on an
  element. An injection point whose target is \<^verbatim>\<open>None\<close>, as \<open>getLayerInjector\<close>
  returns for a layer that is not found, raises AttributeError: \<^verbatim>\<open>self.target.append\<close>
  is evaluated before the name \<^verbatim>\<open>inj\<close>.
\<close>

theorem C10_no_target_counterexample:
  "inject parse_circle sip_no_target (PyElement (Element ''circle'' [] []))
     = (Inl AttributeError, sip_no_target)
   \<and> fst (inject parse_circle sip_no_target (PyElement (Element ''circle'' [] [])))
     \<noteq> Inl NameError"
  by (simp add: inject_def sip_no_target_def sip_plot_def)

text \<open>
  C10, as amended. For every injection point, \<open>inject\<close> called with an element
  raises NameError when the target is an element and AttributeError when the target
  is \<^verbatim>\<open>None\<close>; in both cases the injection point, and with it the child list of the
  target, is unchanged, so no element is ever appended through this branch.
\<close>

theorem C10_inject_element:
  "inject parse self (PyElement e) =
     (Inl (case target self of None \<Rightarrow> AttributeError | Some t \<Rightarrow> NameError), self)"
  by (simp add: inject_def load_global_inj split: option.splits)

text \<open>C10, at a target with one child and at the target \<^verbatim>\<open>None\<close>.\<close>

theorem C10_inject_element_witness:
  "inject parse_circle sip_plot (PyElement (Element ''path'' [] [])) = (Inl NameError, sip_plot)
   \<and> inject parse_circle sip_no_target (PyElement (Element ''path'' [] []))
       = (Inl AttributeError, sip_no_target)"
  using C10_inject_element [of parse_circle sip_plot "Element ''path'' [] []"]
    C10_inject_element [of parse_circle sip_no_target "Element ''path'' [] []"]
  by (simp add: sip_plot_def sip_no_target_def)

subsection \<open>The orchestrator\<close>

lemma getLayer_error: "getLayer self i = Inl e \<Longrightarrow> e = Unmodelled"
  by (auto simp: getLayer_def ET_find_def ET_iterfind_def prefix_map_def ExistingDoc_NS_def
      Let_def split: if_splits option.splits sum.splits list.splits)

lemma viewBox_error: "viewBox pyfloat self = Inl e \<Longrightarrow> e = ParseError \<or> e = ValueError"
  by (auto simp: viewBox_def Let_def split: option.splits if_splits sum.splits
      dest: map_float_error)

text \<open>The exceptions of \<open>getLayerInjector\<close> are those of its three collaborators.\<close>

lemma getLayerInjector_error:
  "getLayerInjector pyfloat self i hrange vrange = Inl e \<Longrightarrow>
     e = Unmodelled \<or> e = ParseError \<or> e = ValueError \<or> e = TypeError \<or> e = ZeroDivisionError"
  by (auto simp: getLayerInjector_def ScaledInjectionPoint_init_def split: sum.splits
      dest: getLayer_error viewBox_error NumDocTrafo_init_error)

lemma viewBox_doc_plot: "viewBox float_digits doc_plot = Inr (Some [0, 0, 100, 50])"
  by (simp add: viewBox_def doc_plot_def re_findall_def is_sep_def float_digits_def digit_of_def)

text \<open>
  C3, counterexample. The claim has \<open>getLayerInjector\<close> raise LayerNotFoundError
  for a layer that is not found and MissingViewportError for an absent viewBox. For
  the id \<^verbatim>\<open>missing\<close> on a document with a viewBox the call returns an injection point
  whose target is \<^verbatim>\<open>None\<close>; on a document without a viewBox it raises TypeError.
\<close>

theorem C3_missing_layer_counterexample:
  "map_sum id target (getLayerInjector float_digits doc_plot ''missing'' (0, 10) (0, 5)) = Inr None
   \<and> getLayerInjector float_digits doc_no_viewBox ''plot'' (0, 10) (0, 5) = Inl TypeError
   \<and> getLayerInjector float_digits doc_no_viewBox ''plot'' (0, 10) (0, 5) \<noteq> Inl MissingViewportError"
proof -
  have l: "getLayer doc_plot ''missing'' = Inr None"
    by (simp add: getLayer_direct_children apostrophe_def doc_plot_def svg_g_def svg_uri_def)
  have d: "deltaFnHV doc_plot = (None, None)"
    by (simp add: doc_plot_def)
  have "map_sum id target (getLayerInjector float_digits doc_plot ''missing'' (0, 10) (0, 5)) = Inr None"
    by (simp add: getLayerInjector_def l d viewBox_doc_plot ScaledInjectionPoint_init_def
        NumDocTrafo_init_nonzero endpoint_delta_def NumDocTrafo.defs ScaledInjectionPoint.defs)
  moreover have p: "getLayer doc_no_viewBox ''plot'' = Inr (Some (svg_g ''plot'' []))"
    by (simp add: getLayer_direct_children apostrophe_def doc_no_viewBox_def svg_g_def svg_uri_def)
  have n: "viewBox float_digits doc_no_viewBox = Inr None"
    by (simp add: viewBox_absent doc_no_viewBox_def)
  have "getLayerInjector float_digits doc_no_viewBox ''plot'' (0, 10) (0, 5) = Inl TypeError"
    by (simp add: getLayerInjector_def p n ScaledInjectionPoint_init_def NumDocTrafo_init_def
        unpack_viewBox_def)
  ultimately show ?thesis by simp
qed

text \<open>
  C3, as amended. \<open>getLayerInjector\<close> never raises LayerNotFoundError or
  MissingViewportError, and an injection point it returns has as its target what
  \<open>getLayer\<close> returned. When \<open>getLayer\<close> finds no layer with the id, the viewBox has
  four numbers, these, the ranges and the results of the configured delta functions
  are numbers of \<open>py_number\<close> and neither endpoint delta is zero, \<open>getLayerInjector\<close>
  raises nothing and returns an injection point whose target is \<^verbatim>\<open>None\<close>, on which
  every \<open>inject\<close> call raises AttributeError. When the viewBox attribute is absent
  (and the layer lookup has returned), \<open>getLayerInjector\<close> raises TypeError, so no
  injection point is returned.
\<close>

theorem C3_getLayerInjector_missing_parts:
  "getLayerInjector pyfloat self i hrange vrange \<noteq> Inl LayerNotFoundError
   \<and> getLayerInjector pyfloat self i hrange vrange \<noteq> Inl MissingViewportError
   \<and> (getLayer self i = Inr layer \<and> getLayerInjector pyfloat self i hrange vrange = Inr made
    \<longrightarrow> target made = layer)
   \<and> (getLayer self i = Inr None \<and> viewBox pyfloat self = Inr (Some [x, y, w, h])
      \<and> list_all py_number [x, y, w, h, a1, a2, b1, b2]
      \<and> delta_result_ok (fst (deltaFnHV self)) a1 a2
      \<and> delta_result_ok (snd (deltaFnHV self)) b1 b2
      \<and> endpoint_delta (fst (deltaFnHV self)) a1 a2 \<noteq> 0
      \<and> endpoint_delta (snd (deltaFnHV self)) b1 b2 \<noteq> 0
    \<longrightarrow> (\<exists>sip. getLayerInjector pyfloat self i (a1, a2) (b1, b2) = Inr sip \<and> target sip = None
           \<and> (\<forall>c. inject parse sip c = (Inl AttributeError, sip))))
   \<and> (getLayer self i = Inr layer \<and> viewBox pyfloat self = Inr None
    \<longrightarrow> getLayerInjector pyfloat self i hrange vrange = Inl TypeError)"
proof (intro conjI impI)
  show "getLayerInjector pyfloat self i hrange vrange \<noteq> Inl LayerNotFoundError"
    using getLayerInjector_error [of pyfloat self i hrange vrange LayerNotFoundError] by auto
  show "getLayerInjector pyfloat self i hrange vrange \<noteq> Inl MissingViewportError"
    using getLayerInjector_error [of pyfloat self i hrange vrange MissingViewportError] by auto
next
  assume "getLayer self i = Inr layer \<and> getLayerInjector pyfloat self i hrange vrange = Inr made"
  then show "target made = layer"
    by (auto simp: getLayerInjector_def ScaledInjectionPoint_init_def NumDocTrafo.defs
        ScaledInjectionPoint.defs split: sum.splits)
next
  assume a: "getLayer self i = Inr None \<and> viewBox pyfloat self = Inr (Some [x, y, w, h])
      \<and> list_all py_number [x, y, w, h, a1, a2, b1, b2]
      \<and> delta_result_ok (fst (deltaFnHV self)) a1 a2
      \<and> delta_result_ok (snd (deltaFnHV self)) b1 b2
      \<and> endpoint_delta (fst (deltaFnHV self)) a1 a2 \<noteq> 0
      \<and> endpoint_delta (snd (deltaFnHV self)) b1 b2 \<noteq> 0"
  then obtain sip where s: "getLayerInjector pyfloat self i (a1, a2) (b1, b2) = Inr sip"
      and t: "target sip = None"
    by (simp add: getLayerInjector_def ScaledInjectionPoint_init_def NumDocTrafo_init_nonzero
        NumDocTrafo.defs ScaledInjectionPoint.defs)
  from t have "\<forall>c. inject parse sip c = (Inl AttributeError, sip)"
    by (simp add: inject_no_target)
  with s t show "\<exists>sip. getLayerInjector pyfloat self i (a1, a2) (b1, b2) = Inr sip \<and> target sip = None
           \<and> (\<forall>c. inject parse sip c = (Inl AttributeError, sip))"
    by blast
next
  assume "getLayer self i = Inr layer \<and> viewBox pyfloat self = Inr None"
  then show "getLayerInjector pyfloat self i hrange vrange = Inl TypeError"
    by (simp add: getLayerInjector_def ScaledInjectionPoint_init_def NumDocTrafo_init_def
        unpack_viewBox_def)
qed

text \<open>
  C3, witness: the id \<^verbatim>\<open>missing\<close> and the id \<^verbatim>\<open>plot\<close> on a document with a viewBox,
  and the id \<^verbatim>\<open>plot\<close> on a document without one.
\<close>

theorem C3_getLayerInjector_witness:
  "(\<exists>sip. getLayerInjector float_digits doc_plot ''missing'' (0, 10) (0, 5) = Inr sip
       \<and> target sip = None
       \<and> (\<forall>c. inject parse_circle sip c = (Inl AttributeError, sip)))
   \<and> map_sum id target (getLayerInjector float_digits doc_plot ''plot'' (0, 10) (0, 5))
       = Inr (Some (svg_g ''plot'' []))
   \<and> getLayerInjector float_digits doc_no_viewBox ''plot'' (1, 2) (3, 4) = Inl TypeError
   \<and> getLayerInjector float_digits doc_no_viewBox ''plot'' (1, 2) (3, 4) \<noteq> Inl LayerNotFoundError
   \<and> getLayerInjector float_digits doc_no_viewBox ''plot'' (1, 2) (3, 4) \<noteq> Inl MissingViewportError"
proof -
  have l: "getLayer doc_plot ''missing'' = Inr None"
    by (simp add: getLayer_direct_children apostrophe_def doc_plot_def svg_g_def svg_uri_def)
  have g: "getLayer doc_plot ''plot'' = Inr (Some (svg_g ''plot'' []))"
    by (simp add: getLayer_direct_children apostrophe_def doc_plot_def svg_g_def svg_uri_def)
  have p: "getLayer doc_no_viewBox ''plot'' = Inr (Some (svg_g ''plot'' []))"
    by (simp add: getLayer_direct_children apostrophe_def doc_no_viewBox_def svg_g_def svg_uri_def)
  have n: "viewBox float_digits doc_no_viewBox = Inr None"
    by (simp add: viewBox_absent doc_no_viewBox_def)
  have d: "deltaFnHV doc_plot = (None, None)"
    by (simp add: doc_plot_def)
  have r: "list_all py_number [0, 0, 100, 50, 0, 10, 0, 5]"
    by (simp add: py_number_examples)
  obtain made where m: "getLayerInjector float_digits doc_plot ''plot'' (0, 10) (0, 5) = Inr made"
    by (simp add: getLayerInjector_def g d viewBox_doc_plot ScaledInjectionPoint_init_def
        NumDocTrafo_init_nonzero endpoint_delta_def)
  have "target made = Some (svg_g ''plot'' [])"
    using g m
      C3_getLayerInjector_missing_parts [where self = doc_plot and i = "''plot''"
        and pyfloat = float_digits and hrange = "(0, 10)" and vrange = "(0, 5)"
        and layer = "Some (svg_g ''plot'' [])" and made = made]
    by simp
  with m have t: "map_sum id target (getLayerInjector float_digits doc_plot ''plot'' (0, 10) (0, 5))
       = Inr (Some (svg_g ''plot'' []))"
    by simp
  show ?thesis
    using l p n d r t viewBox_doc_plot
      C3_getLayerInjector_missing_parts [where self = doc_plot and i = "''missing''"
        and pyfloat = float_digits and x = 0 and y = 0 and w = 100 and h = 50
        and ?a1.0 = 0 and ?a2.0 = 10 and ?b1.0 = 0 and ?b2.0 = 5 and parse = parse_circle]
      C3_getLayerInjector_missing_parts [where self = doc_no_viewBox and i = "''plot''"
        and pyfloat = float_digits and layer = "Some (svg_g ''plot'' [])"
        and hrange = "(1, 2)" and vrange = "(3, 4)"]
    by (simp add: delta_result_ok_def endpoint_delta_def)
qed

end
